theory Spec2Isabelle
  imports Main "HOL-Library.Sublist"
begin

section \<open>Python strings\<close>

text \<open>
  A Python \<open>str\<close> is a sequence of Unicode code points, modelled as a list of natural
  numbers. A literal of the source is written with \<open>ascii\<close> where it is ASCII and with its
  code points where it is not. The operator \<open>in\<close> on two strings is \<^const>\<open>sublist\<close> (a
  contiguous occurrence), and a string is truthy when it is not empty.
\<close>

type_synonym str = "nat list"

definition ascii :: "string \<Rightarrow> str" where
  "ascii s = map of_char s"

text \<open>
  \<open>str.strip()\<close> removes from both ends the code points that Python 3 takes for
  whitespace: the ASCII controls 0x09-0x0D and 0x1C-0x1F, the blank, the next line control
  0x85, the no-break space 0xA0, and the Unicode spaces and line separators.
\<close>

definition whitespace :: "nat list" where
  "whitespace =
     [0x09, 0x0A, 0x0B, 0x0C, 0x0D, 0x1C, 0x1D, 0x1E, 0x1F, 0x20, 0x85, 0xA0, 0x1680,
      0x2000, 0x2001, 0x2002, 0x2003, 0x2004, 0x2005, 0x2006, 0x2007, 0x2008, 0x2009, 0x200A,
      0x2028, 0x2029, 0x202F, 0x205F, 0x3000]"

definition is_space :: "nat \<Rightarrow> bool" where
  "is_space c = (c \<in> set whitespace)"

definition strip :: "str \<Rightarrow> str" where
  "strip s = rev (dropWhile is_space (rev (dropWhile is_space s)))"

text \<open>
  \<open>str.lower()\<close> replaces every code point by its full lower-case mapping in the Unicode
  character database, one to three code points, except the capital sigma (0x3A3), which
  becomes the final sigma (0x3C2) or the small sigma (0x3C3) depending on its position in
  the string. The database is not part of the repository: the mapping of one code point and
  the test for the final position are parameters, the fields \<open>lower_map\<close> and
  \<open>final_sigma\<close> of the record below.
\<close>

record casing =
  lower_map :: "nat \<Rightarrow> nat list"
  final_sigma :: "str \<Rightarrow> nat \<Rightarrow> bool"

definition lower_at :: "'a casing_scheme \<Rightarrow> str \<Rightarrow> nat \<times> nat \<Rightarrow> nat list" where
  "lower_at u s = (\<lambda>(i, c).
     if c = 0x3A3 then [if final_sigma u s i then 0x3C2 else 0x3C3] else lower_map u c)"

definition lower :: "'a casing_scheme \<Rightarrow> str \<Rightarrow> str" where
  "lower u s = concat (map (lower_at u s) (enumerate 0 s))"

section \<open>JSON values\<close>

text \<open>
  A \<open>float\<close>: the finite number \<open>m * 2 ^ x\<close>, an infinity with its sign, or not a number
  (\<open>json.loads\<close> reads \<open>Infinity\<close> and \<open>NaN\<close>). Only zero is falsy.
\<close>

datatype pyfloat =
    Finite int int
  | Infinite bool
  | NaN

fun float_truthy :: "pyfloat \<Rightarrow> bool" where
  "float_truthy (Finite m x) = (m \<noteq> 0)"
| "float_truthy (Infinite negative) = True"
| "float_truthy NaN = True"

text \<open>
  A value parsed from JSON, as Python holds it: \<open>None\<close>, a \<open>bool\<close>, an \<open>int\<close>, a \<open>float\<close>,
  a \<open>str\<close>, a \<open>list\<close>, or a \<open>dict\<close> with string keys, given by its items in order (the
  keys are distinct).
\<close>

datatype json =
    JNull
  | JBool bool
  | JInt int
  | JFloat pyfloat
  | JStr str
  | JArray "json list"
  | JObject "(str \<times> json) list"

datatype error =
    KeyError str
  | TypeError
  | AttributeError
  | ConnectionError
  | SheetError

text \<open>The truth value of a value, as \<open>if value:\<close> tests it.\<close>

fun truthy :: "json \<Rightarrow> bool" where
  "truthy JNull = False"
| "truthy (JBool b) = b"
| "truthy (JInt n) = (n \<noteq> 0)"
| "truthy (JFloat f) = float_truthy f"
| "truthy (JStr s) = (s \<noteq> [])"
| "truthy (JArray xs) = (xs \<noteq> [])"
| "truthy (JObject kvs) = (kvs \<noteq> [])"

text \<open>\<open>value.get(key)\<close>: only a \<open>dict\<close> has the method.\<close>

fun py_get :: "json \<Rightarrow> str \<Rightarrow> error + json option" where
  "py_get (JObject kvs) k = Inr (map_of kvs k)"
| "py_get v k = Inl AttributeError"

text \<open>\<open>value[key]\<close> with a string key: a missing key of a \<open>dict\<close> is a \<open>KeyError\<close>, and no
  other value can be indexed by a string.\<close>

fun py_item :: "json \<Rightarrow> str \<Rightarrow> error + json" where
  "py_item (JObject kvs) k = (case map_of kvs k of None \<Rightarrow> Inl (KeyError k) | Some v \<Rightarrow> Inr v)"
| "py_item v k = Inl TypeError"

text \<open>\<open>key in value\<close> with a string key.\<close>

fun py_contains :: "str \<Rightarrow> json \<Rightarrow> error + bool" where
  "py_contains k (JObject kvs) = Inr (map_of kvs k \<noteq> None)"
| "py_contains k (JStr s) = Inr (sublist k s)"
| "py_contains k (JArray xs) = Inr (JStr k \<in> set xs)"
| "py_contains k v = Inl TypeError"

text \<open>\<open>for x in value\<close>: the elements of a \<open>list\<close>, the characters of a \<open>str\<close>, the keys of a
  \<open>dict\<close>; nothing else can be iterated.\<close>

fun py_iter :: "json \<Rightarrow> error + json list" where
  "py_iter (JArray xs) = Inr xs"
| "py_iter (JStr s) = Inr (map (\<lambda>c. JStr [c]) s)"
| "py_iter (JObject kvs) = Inr (map (\<lambda>kv. JStr (fst kv)) kvs)"
| "py_iter v = Inl TypeError"

text \<open>A \<open>list\<close> or a \<open>dict\<close> cannot be the key of a dictionary lookup.\<close>

fun hashable :: "json \<Rightarrow> bool" where
  "hashable (JArray xs) = False"
| "hashable (JObject kvs) = False"
| "hashable v = True"

section \<open>Configuration\<close>

definition FALLBACK_MESSAGE :: str where
  "FALLBACK_MESSAGE =
     ascii ''Sorry, I didn't quite understand that. '' @ [0x1F605]
     @ ascii '' Please choose from the options below or contact us directly!''"

definition GREETING_KEYWORDS :: "str list" where
  "GREETING_KEYWORDS =
     [ascii ''hi'', ascii ''hello'', ascii ''hey'', ascii ''start'', ascii ''help'', ascii ''menu'']"

record button =
  title :: str
  payload :: str

definition QUICK_REPLY_BUTTONS :: "button list" where
  "QUICK_REPLY_BUTTONS =
     [\<lparr>title = [0x1F4B0] @ ascii '' Pricing'', payload = ascii ''PRICE''\<rparr>,
      \<lparr>title = [0x1F550] @ ascii '' Our Hours'', payload = ascii ''HOURS''\<rparr>,
      \<lparr>title = [0x1F4CD] @ ascii '' Location'', payload = ascii ''LOCATION''\<rparr>,
      \<lparr>title = [0x1F4DE] @ ascii '' Contact Us'', payload = ascii ''CONTACT''\<rparr>]"

definition PAYLOAD_REPLIES :: "str \<rightharpoonup> str" where
  "PAYLOAD_REPLIES = map_of
     [(ascii ''PRICE'', [0x1F4B0]
         @ ascii '' Our pricing starts at $99/month. Visit our website at yourwebsite.com for full details!''),
      (ascii ''HOURS'', [0x1F550]
         @ ascii '' We're open Monday to Friday, 9:00 AM '' @ [0x2013] @ ascii '' 6:00 PM.''),
      (ascii ''LOCATION'', [0x1F4CD]
         @ ascii '' You can find us at 123 Main Street, Manila. We'd love to see you!''),
      (ascii ''CONTACT'', [0x1F4DE]
         @ ascii '' You can reach us at hello@yourbusiness.com or call +63 900 000 0000.'')]"

section \<open>Values exchanged with the outside\<close>

subsection \<open>The request to the Send API\<close>

record quick_reply_out =
  content_type :: str
  out_title :: str
  out_payload :: str

record message_out =
  out_text :: str
  quick_replies :: "quick_reply_out list option"

record send_request =
  recipient :: json
  message_out :: message_out
  messaging_type :: str

subsection \<open>Outcomes of the external calls, log lines, responses\<close>

datatype post_outcome =
    PostRaises
  | PostResponse nat str

text \<open>
  A value read from the profile JSON: a string, or any other value, carried as the text
  that Python's string formatting gives for it.
\<close>

datatype pyval = PStr str | POther str

text \<open>
  The body of the profile response: not JSON (\<open>response.json()\<close> raises), JSON that is not
  an object (\<open>.get\<close> raises), or an object, of which only the key \<open>first_name\<close> is read.
\<close>

datatype json_body = NotJson | NonObject | Object "pyval option"

datatype get_outcome =
    GetRaises
  | GetResponse nat json_body

datatype sheet_outcome =
    SheetRaises
  | SheetValues "str list list"

datatype log_entry =
    LogSheetFailed
  | LogNameFailed
  | LogSendFailed nat str
  | LogReplied json str
  | LogMsg json json

datatype response_body = Text str | Json "(str \<times> str) list"

datatype http_response = HttpResponse response_body nat

text \<open>
  The surroundings of the handler: the case tables of the Python runtime and the three
  collaborators. An answer of a collaborator may depend on the moment of the call, the
  number of external calls made before it.
\<close>

record env = casing +
  http_post :: "nat \<Rightarrow> send_request \<Rightarrow> post_outcome"
  http_get :: "nat \<Rightarrow> json \<Rightarrow> get_outcome"
  sheet_get_all_values :: "nat \<Rightarrow> sheet_outcome"

text \<open>
  What the handler does to the outside: the requests posted to the Send API, in order, the
  lines printed, and the number of external calls made.
\<close>

record state =
  posts :: "send_request list"
  log_lines :: "log_entry list"
  clock :: nat

definition tick :: "state \<Rightarrow> state" where
  "tick st = st\<lparr>clock := Suc (clock st)\<rparr>"

definition print :: "log_entry \<Rightarrow> state \<Rightarrow> state" where
  "print l st = st\<lparr>log_lines := log_lines st @ [l]\<rparr>"

section \<open>Keyword lookup in the sheet\<close>

text \<open>
  \<open>get_sheet_data\<close>: whatever the credentials, the client or the sheet raise is one
  exception; otherwise all values but the first row are returned (\<open>rows[1:]\<close>, which is
  empty for an empty sheet).
\<close>

definition get_sheet_data :: "env \<Rightarrow> state \<Rightarrow> (error + str list list) \<times> state" where
  "get_sheet_data e st =
     (case sheet_get_all_values e (clock st) of
        SheetRaises \<Rightarrow> (Inl SheetError, tick st)
      | SheetValues rows \<Rightarrow> (Inr (drop 1 rows), tick st))"

text \<open>The \<open>for\<close> loop of \<open>find_reply_from_sheet\<close> over the rows, with its early return.\<close>

fun scan_rows :: "env \<Rightarrow> str list list \<Rightarrow> str \<Rightarrow> str option" where
  "scan_rows e [] user_message_lower = None"
| "scan_rows e (row # rows) user_message_lower =
     (if length row < 2 then scan_rows e rows user_message_lower
      else
        let keyword = lower e (strip (row ! 0));
            reply = strip (row ! 1)
        in if keyword \<noteq> [] \<and> sublist keyword user_message_lower then Some reply
           else scan_rows e rows user_message_lower)"

definition find_reply_from_sheet :: "env \<Rightarrow> str \<Rightarrow> state \<Rightarrow> str option \<times> state" where
  "find_reply_from_sheet e user_message st =
     (case get_sheet_data e st of
        (Inl err, st') \<Rightarrow> (None, print LogSheetFailed st')
      | (Inr rows, st') \<Rightarrow> (scan_rows e rows (lower e user_message), st'))"

section \<open>The sender's first name\<close>

text \<open>
  \<open>get_user_name\<close>: the request and the reading of the response stand inside
  \<open>try\<close> ... \<open>except Exception\<close>, so an exception of \<open>requests.get\<close>, of
  \<open>response.json()\<close> or of \<open>.get\<close> is printed and the function returns \<open>there\<close>. A
  status other than 200 falls through to the same value. With status 200 and a JSON object
  the value of \<open>first_name\<close> is returned as it is, and \<open>there\<close> when the key is absent.
\<close>

definition get_user_name :: "env \<Rightarrow> json \<Rightarrow> state \<Rightarrow> pyval \<times> state" where
  "get_user_name e sid st =
     (case http_get e (clock st) sid of
        GetRaises \<Rightarrow> (PStr (ascii ''there''), print LogNameFailed (tick st))
      | GetResponse status_code body \<Rightarrow>
          if status_code = 200 then
            (case body of
               NotJson \<Rightarrow> (PStr (ascii ''there''), print LogNameFailed (tick st))
             | NonObject \<Rightarrow> (PStr (ascii ''there''), print LogNameFailed (tick st))
             | Object first_name \<Rightarrow>
                 (case first_name of None \<Rightarrow> PStr (ascii ''there'') | Some v \<Rightarrow> v, tick st))
          else (PStr (ascii ''there''), tick st))"

section \<open>The Send API\<close>

text \<open>The JSON body that \<open>send_message\<close> builds. An absent or empty button list is falsy.\<close>

definition build_payload :: "json \<Rightarrow> str \<Rightarrow> button list \<Rightarrow> send_request" where
  "build_payload recipient_id message_text qrs =
     \<lparr>recipient = recipient_id,
      message_out =
        \<lparr>out_text = message_text,
         quick_replies =
           (if qrs \<noteq> [] then
              Some (map (\<lambda>qr. \<lparr>content_type = ascii ''text'', out_title = title qr,
                                out_payload = payload qr\<rparr>) qrs)
            else None)\<rparr>,
      messaging_type = ascii ''RESPONSE''\<rparr>"

text \<open>
  \<open>send_message\<close> posts the request outside any \<open>try\<close>: an exception of \<open>requests.post\<close>
  leaves the function. A response is only looked at for its status code.
\<close>

definition send_message :: "env \<Rightarrow> json \<Rightarrow> str \<Rightarrow> button list \<Rightarrow> state \<Rightarrow> error option \<times> state" where
  "send_message e recipient_id message_text qrs st =
     (let request = build_payload recipient_id message_text qrs;
          st' = tick (st\<lparr>posts := posts st @ [request]\<rparr>)
      in case http_post e (clock st) request of
           PostRaises \<Rightarrow> (Some ConnectionError, st')
         | PostResponse status_code response_text \<Rightarrow>
             if status_code \<noteq> 200 then (None, print (LogSendFailed status_code response_text) st')
             else (None, print (LogReplied recipient_id (take 60 message_text)) st'))"

fun format_value :: "pyval \<Rightarrow> str" where
  "format_value (PStr s) = s"
| "format_value (POther r) = r"

definition welcome_text :: "pyval \<Rightarrow> str" where
  "welcome_text name =
     [0x1F44B] @ ascii '' Hi, '' @ format_value name
     @ ascii ''! How can we help you today? Choose an option below or type your question:''"

definition send_welcome :: "env \<Rightarrow> json \<Rightarrow> state \<Rightarrow> error option \<times> state" where
  "send_welcome e recipient_id st =
     (case get_user_name e recipient_id st of
        (name, st') \<Rightarrow> send_message e recipient_id (welcome_text name) QUICK_REPLY_BUTTONS st')"

section \<open>The webhook handler\<close>

text \<open>
  The text case of \<open>handle_message\<close> for a text that is a string (from the call of
  \<open>lower\<close> to the end of the loop body): greeting first, then the sheet, then the fallback.
\<close>

definition handle_text :: "env \<Rightarrow> json \<Rightarrow> str \<Rightarrow> state \<Rightarrow> error option \<times> state" where
  "handle_text e sid user_text st =
     (let user_text_lower = strip (lower e user_text)
      in if list_ex (\<lambda>keyword. sublist keyword user_text_lower) GREETING_KEYWORDS
         then send_welcome e sid st
         else
           (case find_reply_from_sheet e user_text st of
              (sheet_reply, st2) \<Rightarrow>
                (case sheet_reply of
                   Some r \<Rightarrow>
                     if r \<noteq> [] then send_message e sid r QUICK_REPLY_BUTTONS st2
                     else send_message e sid FALLBACK_MESSAGE QUICK_REPLY_BUTTONS st2
                 | None \<Rightarrow> send_message e sid FALLBACK_MESSAGE QUICK_REPLY_BUTTONS st2)))"

text \<open>
  The reply to a quick-reply tap, \<open>PAYLOAD_REPLIES.get(button_payload, FALLBACK_MESSAGE)\<close>:
  a payload that is not hashable is a \<open>TypeError\<close>, and only a string can be a key of the
  table.
\<close>

definition payload_reply :: "json \<Rightarrow> error + str" where
  "payload_reply button_payload =
     (if hashable button_payload then
        (case button_payload of
           JStr code \<Rightarrow> (case PAYLOAD_REPLIES code of Some reply \<Rightarrow> Inr reply | None \<Rightarrow> Inr FALLBACK_MESSAGE)
         | _ \<Rightarrow> Inr FALLBACK_MESSAGE)
      else Inl TypeError)"

text \<open>
  The message cases of the loop body, from \<open>msg = event["message"]\<close> on.
\<close>

definition handle_msg :: "env \<Rightarrow> json \<Rightarrow> json \<Rightarrow> state \<Rightarrow> error option \<times> state" where
  "handle_msg e sid msg st =
     (case py_get msg (ascii ''is_echo'') of
        Inl err \<Rightarrow> (Some err, st)
      | Inr echo \<Rightarrow>
          if (case echo of None \<Rightarrow> False | Some v \<Rightarrow> truthy v) then (None, st)
          else
            (case py_contains (ascii ''quick_reply'') msg of
               Inl err \<Rightarrow> (Some err, st)
             | Inr True \<Rightarrow>
                 (case py_item msg (ascii ''quick_reply'') of
                    Inl err \<Rightarrow> (Some err, st)
                  | Inr qr \<Rightarrow>
                      (case py_item qr (ascii ''payload'') of
                         Inl err \<Rightarrow> (Some err, st)
                       | Inr button_payload \<Rightarrow>
                           (case payload_reply button_payload of
                              Inl err \<Rightarrow> (Some err, st)
                            | Inr reply \<Rightarrow> send_message e sid reply QUICK_REPLY_BUTTONS st)))
             | Inr False \<Rightarrow>
                 (case py_get msg (ascii ''text'') of
                    Inl err \<Rightarrow> (Some err, st)
                  | Inr None \<Rightarrow> (None, st)
                  | Inr (Some user_text) \<Rightarrow>
                      if \<not> truthy user_text then (None, st)
                      else
                        (case user_text of
                           JStr t \<Rightarrow> handle_text e sid t (print (LogMsg sid user_text) st)
                         | _ \<Rightarrow> (Some AttributeError, print (LogMsg sid user_text) st)))))"

text \<open>
  One pass of the inner loop of \<open>handle_message\<close>. The result \<open>None\<close> is the normal end of
  the pass (also by \<open>continue\<close>), \<open>Some err\<close> an exception that leaves the handler.
\<close>

definition handle_event :: "env \<Rightarrow> json \<Rightarrow> state \<Rightarrow> error option \<times> state" where
  "handle_event e ev st =
     (case py_item ev (ascii ''sender'') of
        Inl err \<Rightarrow> (Some err, st)
      | Inr sender \<Rightarrow>
          (case py_item sender (ascii ''id'') of
             Inl err \<Rightarrow> (Some err, st)
           | Inr sender_id \<Rightarrow>
               (case py_contains (ascii ''message'') ev of
                  Inl err \<Rightarrow> (Some err, st)
                | Inr False \<Rightarrow> (None, st)
                | Inr True \<Rightarrow>
                    (case py_item ev (ascii ''message'') of
                       Inl err \<Rightarrow> (Some err, st)
                     | Inr msg \<Rightarrow> handle_msg e sender_id msg st))))"

text \<open>The inner loop: an exception ends it, and the events after it are not visited.\<close>

fun handle_events :: "env \<Rightarrow> json list \<Rightarrow> state \<Rightarrow> error option \<times> state" where
  "handle_events e [] st = (None, st)"
| "handle_events e (ev # evs) st =
     (case handle_event e ev st of
        (Some err, st') \<Rightarrow> (Some err, st')
      | (None, st') \<Rightarrow> handle_events e evs st')"

text \<open>The outer loop; \<open>entry.get("messaging", [])\<close> is read and iterated entry by entry.\<close>

fun handle_entries :: "env \<Rightarrow> json list \<Rightarrow> state \<Rightarrow> error option \<times> state" where
  "handle_entries e [] st = (None, st)"
| "handle_entries e (en # ens) st =
     (case py_get en (ascii ''messaging'') of
        Inl err \<Rightarrow> (Some err, st)
      | Inr m \<Rightarrow>
          (case py_iter (case m of None \<Rightarrow> JArray [] | Some v \<Rightarrow> v) of
             Inl err \<Rightarrow> (Some err, st)
           | Inr evs \<Rightarrow>
               (case handle_events e evs st of
                  (Some err, st') \<Rightarrow> (Some err, st')
                | (None, st') \<Rightarrow> handle_entries e ens st')))"

text \<open>
  \<open>handle_message\<close> on the value that \<open>request.get_json()\<close> returned, any JSON value. A
  result \<open>Inl err\<close> is an exception that leaves the handler.
\<close>

definition handle_message :: "env \<Rightarrow> json \<Rightarrow> state \<Rightarrow> (error + http_response) \<times> state" where
  "handle_message e data st =
     (case py_get data (ascii ''object'') of
        Inl err \<Rightarrow> (Inl err, st)
      | Inr obj \<Rightarrow>
          if obj \<noteq> Some (JStr (ascii ''page'')) then
            (Inr (HttpResponse (Text (ascii ''Not a page event'')) 404), st)
          else
            (case py_get data (ascii ''entry'') of
               Inl err \<Rightarrow> (Inl err, st)
             | Inr en \<Rightarrow>
                 (case py_iter (case en of None \<Rightarrow> JArray [] | Some v \<Rightarrow> v) of
                    Inl err \<Rightarrow> (Inl err, st)
                  | Inr ens \<Rightarrow>
                      (case handle_entries e ens st of
                         (Some err, st') \<Rightarrow> (Inl err, st')
                       | (None, st') \<Rightarrow>
                           (Inr (HttpResponse (Json [(ascii ''status'', ascii ''ok'')]) 200), st')))))"

section \<open>Notions used to state the properties\<close>

text \<open>
  A text greets when its lower-casing contains a greeting keyword. The handler makes the
  test on the trimmed lower-cased text, which comes to the same (\<open>greeting_test_iff\<close>
  below), since no greeting keyword begins or ends with whitespace.
\<close>

definition greets :: "env \<Rightarrow> str \<Rightarrow> bool" where
  "greets e user_text = list_ex (\<lambda>kw. sublist kw (lower e user_text)) GREETING_KEYWORDS"

text \<open>
  A row of the sheet matches a user text when it has a keyword cell and a reply cell, and
  its keyword cell, trimmed and lower-cased, is not empty and occurs in the lower-cased
  text. The first such row in \<open>rows\<close> is \<open>find (row_matches e user_text) rows\<close>.
\<close>

definition row_matches :: "env \<Rightarrow> str \<Rightarrow> str list \<Rightarrow> bool" where
  "row_matches e user_text row =
     (2 \<le> length row \<and> lower e (strip (row ! 0)) \<noteq> []
      \<and> sublist (lower e (strip (row ! 0))) (lower e user_text))"

text \<open>
  The profile lookup fails when the request raises, the status is not 200, the body is not
  a JSON object, or the object has no first name.
\<close>

fun lookup_failed :: "get_outcome \<Rightarrow> bool" where
  "lookup_failed GetRaises = True"
| "lookup_failed (GetResponse status_code body) =
     (if status_code = 200 then (case body of Object (Some v) \<Rightarrow> False | _ \<Rightarrow> True) else True)"

text \<open>The items of a message say that it is an echo.\<close>

definition is_echo :: "(str \<times> json) list \<Rightarrow> bool" where
  "is_echo m = (case map_of m (ascii ''is_echo'') of None \<Rightarrow> False | Some v \<Rightarrow> truthy v)"










section \<open>Sample inputs\<close>

text \<open>
  A fragment of the case tables: the ASCII letters, the capital E with acute accent, and the
  capital I with dot above, whose lower-casing has two code points. No sample text holds a
  capital sigma.
\<close>

definition sample_lower_map :: "nat \<Rightarrow> nat list" where
  "sample_lower_map c =
     (if 65 \<le> c \<and> c \<le> 90 then [c + 32]
      else if c = 0xC9 then [0xE9]
      else if c = 0x130 then [0x69, 0x307]
      else [c])"

text \<open>
  A sheet with a header row, a row whose keyword is a no-break space, two ordinary rows (one
  reply padded with blanks), a blank row, a row whose reply is whitespace only, a row of one
  cell, a row with an accented keyword, and a row whose keyword occurs inside another
  keyword.
\<close>

definition example_sheet :: "str list list" where
  "example_sheet =
     [[ascii ''Keyword'', ascii ''Reply''],
      [[0xA0], ascii ''not a keyword''],
      [ascii ''price'', ascii ''Our pricing starts at $99/month''],
      [ascii ''hours'', ascii '' We're open Mon-Fri, 9am to 6pm. ''],
      [[], []],
      [ascii ''refund'', [0x20, 0xA0]],
      [ascii ''Location''],
      [ascii ''caf'' @ [0xE9], ascii ''The coffee is free.''],
      [ascii ''ice'', ascii ''We sell ice.'']]"

definition padded_sheet :: "str list list" where
  "padded_sheet = [[ascii ''Keyword'', ascii ''Reply''],
                   [ascii ''hours'', ascii '' We're open Mon-Fri, 9am to 6pm. '']]"

definition shadowed_sheet :: "str list list" where
  "shadowed_sheet = [[ascii ''Keyword'', ascii ''Reply''],
                     [ascii ''price'', ascii ''P''],
                     [ascii ''ice'', []]]"

text \<open>
  Surroundings: all collaborators answering well; the Send API unreachable; the Send API
  unreachable at the first call only; the Send API answering 500 with the sheet and the
  profile lookup raising; a profile with an empty first name; the two other sheets.
\<close>

definition example_env :: env where
  "example_env =
     \<lparr>lower_map = sample_lower_map,
      final_sigma = (\<lambda>s i. False),
      http_post = (\<lambda>n r. PostResponse 200 (ascii ''{}'')),
      http_get = (\<lambda>n sid. GetResponse 200 (Object (Some (PStr (ascii ''Maria''))))),
      sheet_get_all_values = (\<lambda>n. SheetValues example_sheet)\<rparr>"

definition faulty_env :: env where
  "faulty_env = example_env\<lparr>http_post := (\<lambda>n r. PostRaises)\<rparr>"


definition down_env :: env where
  "down_env =
     example_env\<lparr>http_post := (\<lambda>n r. PostResponse 500 (ascii ''Internal Server Error'')),
                 http_get := (\<lambda>n sid. GetRaises),
                 sheet_get_all_values := (\<lambda>n. SheetRaises)\<rparr>"

definition nameless_env :: env where
  "nameless_env = example_env\<lparr>http_get := (\<lambda>n sid. GetResponse 200 (Object (Some (PStr []))))\<rparr>"

definition padded_env :: env where
  "padded_env = example_env\<lparr>sheet_get_all_values := (\<lambda>n. SheetValues padded_sheet)\<rparr>"

definition shadowed_env :: env where
  "shadowed_env = example_env\<lparr>sheet_get_all_values := (\<lambda>n. SheetValues shadowed_sheet)\<rparr>"

definition st0 :: state where
  "st0 = \<lparr>posts = [], log_lines = [], clock = 0\<rparr>"


definition echo_event :: json where
  "echo_event =
     JObject [(ascii ''sender'', JObject [(ascii ''id'', JStr (ascii ''42''))]),
              (ascii ''message'', JObject [(ascii ''is_echo'', JBool True), (ascii ''text'', JStr (ascii ''hello''))])]"

definition tap_event :: "string \<Rightarrow> string \<Rightarrow> json" where
  "tap_event sid code =
     JObject [(ascii ''sender'', JObject [(ascii ''id'', JStr (ascii sid))]),
              (ascii ''message'',
               JObject [(ascii ''text'', JStr (ascii ''Pricing'')),
                        (ascii ''quick_reply'', JObject [(ascii ''payload'', JStr (ascii code))])])]"

definition page_delivery :: "json list \<Rightarrow> json" where
  "page_delivery evs =
     JObject [(ascii ''object'', JStr (ascii ''page'')),
              (ascii ''entry'', JArray [JObject [(ascii ''id'', JStr (ascii ''1'')),
                                                 (ascii ''messaging'', JArray evs)]])]"


section \<open>Auxiliary facts\<close>

subsection \<open>Strings\<close>

lemma lower_Nil: "lower u [] = []"
  by (simp add: lower_def)

lemma map_lower_at_plain:
  assumes "0x3A3 \<notin> set v"
  shows "map (lower_at u s) (enumerate n v) = map (lower_map u) v"
  using assms by (induction v arbitrary: n) (simp_all add: lower_at_def)

lemma lower_plain:
  assumes "0x3A3 \<notin> set v"
  shows "lower u v = concat (map (lower_map u) v)"
  by (simp add: lower_def map_lower_at_plain[OF assms])

text \<open>Lower-casing keeps an occurrence of a string that has no capital sigma.\<close>

lemma lower_occurrence:
  assumes "0x3A3 \<notin> set v" and "sublist v t"
  shows "sublist (lower u v) (lower u t)"
proof -
  from assms(2) obtain ps ss where t: "t = ps @ v @ ss"
    by (auto simp: sublist_def)
  have "enumerate 0 (ps @ v @ ss) =
          enumerate 0 ps @ enumerate (length ps) v @ enumerate (length ps + length v) ss"
    by (simp add: enumerate_append_eq add.commute)
  then have "lower u (ps @ v @ ss) =
          concat (map (lower_at u (ps @ v @ ss)) (enumerate 0 ps))
          @ concat (map (lower_at u (ps @ v @ ss)) (enumerate (length ps) v))
          @ concat (map (lower_at u (ps @ v @ ss)) (enumerate (length ps + length v) ss))"
    by (simp add: lower_def)
  then have "lower u t =
          concat (map (lower_at u t) (enumerate 0 ps)) @ lower u v
          @ concat (map (lower_at u t) (enumerate (length ps + length v) ss))"
    by (simp add: t lower_plain[OF assms(1)] map_lower_at_plain[OF assms(1)])
  then show ?thesis
    by (metis sublist_appendI)
qed

lemma sigma_lower:
  assumes "0x3A3 \<in> set v"
  shows "0x3C2 \<in> set (lower u v) \<or> 0x3C3 \<in> set (lower u v)"
proof -
  from assms obtain i where i: "i < length v" "v ! i = 0x3A3"
    by (auto simp: in_set_conv_nth)
  then have "(i, 0x3A3) \<in> set (enumerate 0 v)"
    by (simp add: in_set_enumerate_eq)
  then have "set (lower_at u v (i, 0x3A3)) \<subseteq> set (lower u v)"
    by (auto simp: lower_def)
  then show ?thesis
    by (auto simp: lower_at_def split: if_splits)
qed

lemma greeting_keyword_shape:
  assumes "kw \<in> set GREETING_KEYWORDS"
  shows "kw \<noteq> [] \<and> \<not> is_space (hd kw) \<and> \<not> is_space (last kw)
         \<and> 0x3C2 \<notin> set kw \<and> 0x3C3 \<notin> set kw"
  using assms by (auto simp: GREETING_KEYWORDS_def ascii_def is_space_def whitespace_def)

lemma strip_sublist: "sublist (strip s) s"
proof -
  have "suffix (dropWhile is_space s) s"
    by (rule suffix_dropWhile)
  moreover have "prefix (strip s) (dropWhile is_space s)"
  proof -
    have "suffix (dropWhile is_space (rev (dropWhile is_space s))) (rev (dropWhile is_space s))"
      by (rule suffix_dropWhile)
    then show ?thesis
      by (simp add: strip_def suffix_to_prefix)
  qed
  ultimately show ?thesis
    by (meson prefix_imp_sublist suffix_imp_sublist sublist_order.order_trans)
qed

lemma dropWhile_keeps_occurrence:
  assumes "kw \<noteq> []" and "\<not> P (hd kw)"
  shows "\<exists>ps'. dropWhile P (ps @ kw @ ss) = ps' @ kw @ ss"
proof (induction ps)
  case Nil
  from assms obtain k ks where "kw = k # ks" and "\<not> P k"
    by (cases kw) auto
  then have "dropWhile P ([] @ kw @ ss) = [] @ kw @ ss"
    by simp
  then show ?case by blast
next
  case (Cons p ps)
  show ?case
  proof (cases "P p")
    case True
    with Cons show ?thesis by simp
  next
    case False
    then have "dropWhile P ((p # ps) @ kw @ ss) = (p # ps) @ kw @ ss"
      by simp
    then show ?thesis by blast
  qed
qed

lemma sublist_strip:
  assumes "sublist kw s" and "kw \<noteq> []" and "\<not> is_space (hd kw)" and "\<not> is_space (last kw)"
  shows "sublist kw (strip s)"
proof -
  from assms(1) obtain ps ss where s: "s = ps @ kw @ ss"
    by (auto simp: sublist_def)
  have "\<exists>ps'. dropWhile is_space (ps @ kw @ ss) = ps' @ kw @ ss"
    using assms(2,3) by (rule dropWhile_keeps_occurrence)
  then obtain ps' where front: "dropWhile is_space (ps @ kw @ ss) = ps' @ kw @ ss"
    by blast
  have "rev kw \<noteq> []" and "\<not> is_space (hd (rev kw))"
    using assms(2,4) by (simp_all add: hd_rev)
  then have "\<exists>ss'. dropWhile is_space (rev ss @ rev kw @ rev ps') = ss' @ rev kw @ rev ps'"
    by (rule dropWhile_keeps_occurrence)
  then obtain ss' where rear: "dropWhile is_space (rev ss @ rev kw @ rev ps') = ss' @ rev kw @ rev ps'"
    by blast
  have "strip s = ps' @ kw @ rev ss'"
    by (simp add: strip_def s front rear)
  then show ?thesis
    by (auto simp: sublist_def)
qed

lemma greeting_test_iff:
  "list_ex (\<lambda>keyword. sublist keyword (strip (lower e t))) GREETING_KEYWORDS \<longleftrightarrow> greets e t"
proof -
  have "sublist kw (strip (lower e t)) \<longleftrightarrow> sublist kw (lower e t)" if "kw \<in> set GREETING_KEYWORDS" for kw
  proof
    assume "sublist kw (strip (lower e t))"
    then show "sublist kw (lower e t)"
      using strip_sublist sublist_order.order_trans by blast
  next
    assume "sublist kw (lower e t)"
    then show "sublist kw (strip (lower e t))"
      using greeting_keyword_shape[OF that] by (simp add: sublist_strip)
  qed
  then show ?thesis
    by (auto simp: list_ex_iff greets_def)
qed

lemma greets_variant:
  assumes "lower e v \<in> set GREETING_KEYWORDS" and "sublist v t"
  shows "greets e t"
proof -
  have "0x3A3 \<notin> set v"
    using sigma_lower[of v e] greeting_keyword_shape[OF assms(1)] by blast
  then have "sublist (lower e v) (lower e t)"
    using assms(2) by (rule lower_occurrence)
  then have "\<exists>kw\<in>set GREETING_KEYWORDS. sublist kw (lower e t)"
    using assms(1) by (rule bexI)
  then show ?thesis
    by (simp only: greets_def list_ex_iff)
qed

lemma row_matches_text_nonempty:
  assumes "row_matches e t row"
  shows "t \<noteq> []"
proof
  assume "t = []"
  with assms show False
    by (simp add: row_matches_def lower_Nil)
qed

lemma welcome_text_contains_name: "sublist (format_value name) (welcome_text name)"
proof -
  have "welcome_text name =
          ([0x1F44B] @ ascii '' Hi, '') @ format_value name
          @ ascii ''! How can we help you today? Choose an option below or type your question:''"
    by (simp add: welcome_text_def)
  then show ?thesis
    by (simp only: sublist_appendI)
qed

subsection \<open>The sheet lookup\<close>

text \<open>The loop returns the trimmed reply cell of the first matching row.\<close>

lemma scan_rows_find:
  "scan_rows e rows (lower e t) = map_option (\<lambda>row. strip (row ! 1)) (find (row_matches e t) rows)"
  by (induction rows) (simp_all add: row_matches_def Let_def not_less)

lemma find_reply_from_sheet_fst:
  "fst (find_reply_from_sheet e t st) =
     (case sheet_get_all_values e (clock st) of
        SheetRaises \<Rightarrow> None
      | SheetValues sheet \<Rightarrow> map_option (\<lambda>row. strip (row ! 1)) (find (row_matches e t) (drop 1 sheet)))"
  by (simp add: find_reply_from_sheet_def get_sheet_data_def scan_rows_find split: sheet_outcome.split)

lemma find_reply_from_sheet_first_match:
  assumes "sheet_get_all_values e (clock st) = SheetValues sheet"
    and "find (row_matches e t) (drop 1 sheet) = Some row"
  shows "fst (find_reply_from_sheet e t st) = Some (strip (row ! 1))"
  using assms by (simp add: find_reply_from_sheet_fst)

subsection \<open>What each operation posts\<close>

lemma posts_tick: "posts (tick st) = posts st"
  by (simp add: tick_def)

lemma posts_print: "posts (print l st) = posts st"
  by (simp add: print_def)

lemma clock_print: "clock (print l st) = clock st"
  by (simp add: print_def)

lemma send_message_posts:
  "posts (snd (send_message e r t q st)) = posts st @ [build_payload r t q]"
  by (simp add: send_message_def Let_def posts_tick posts_print split: post_outcome.split)



lemma get_user_name_posts: "posts (snd (get_user_name e sid st)) = posts st"
  by (simp add: get_user_name_def posts_tick posts_print split: get_outcome.split json_body.split)

lemma find_reply_from_sheet_posts: "posts (snd (find_reply_from_sheet e t st)) = posts st"
  by (simp add: find_reply_from_sheet_def get_sheet_data_def posts_tick posts_print
      split: sheet_outcome.split)

lemma send_welcome_posts:
  "posts (snd (send_welcome e sid st)) =
     posts st @ [build_payload sid (welcome_text (fst (get_user_name e sid st))) QUICK_REPLY_BUTTONS]"
proof -
  obtain name st' where g: "get_user_name e sid st = (name, st')"
    by (cases "get_user_name e sid st")
  have "posts st' = posts st"
    using get_user_name_posts[of e sid st] g by simp
  then show ?thesis
    by (simp add: send_welcome_def g send_message_posts)
qed


lemma handle_text_no_match:
  assumes "\<not> greets e t"
    and "fst (find_reply_from_sheet e t st) = None \<or> fst (find_reply_from_sheet e t st) = Some []"
  shows "posts (snd (handle_text e sid t st)) =
           posts st @ [build_payload sid FALLBACK_MESSAGE QUICK_REPLY_BUTTONS]"
proof -
  obtain r st2 where f: "find_reply_from_sheet e t st = (r, st2)"
    by (cases "find_reply_from_sheet e t st")
  have p: "posts st2 = posts st"
    using find_reply_from_sheet_posts[of e t st] f by simp
  from assms(2) f have "r = None \<or> r = Some []"
    by simp
  then show ?thesis
    using assms(1) by (auto simp: handle_text_def greeting_test_iff f send_message_posts p)
qed

lemma handle_text_match:
  assumes "\<not> greets e t"
    and "fst (find_reply_from_sheet e t st) = Some r" and "r \<noteq> []"
  shows "posts (snd (handle_text e sid t st)) =
           posts st @ [build_payload sid r QUICK_REPLY_BUTTONS]"
proof -
  obtain r' st2 where f: "find_reply_from_sheet e t st = (r', st2)"
    by (cases "find_reply_from_sheet e t st")
  have p: "posts st2 = posts st"
    using find_reply_from_sheet_posts[of e t st] f by simp
  from assms(2) f have "r' = Some r"
    by simp
  then show ?thesis
    using assms(1,3) by (simp add: handle_text_def greeting_test_iff f send_message_posts p)
qed


subsection \<open>A delivery in which nothing raises\<close>






subsection \<open>Evaluation of the samples\<close>

lemmas string_eval =
  ascii_def lower_def lower_at_def strip_def is_space_def whitespace_def sample_lower_map_def
  GREETING_KEYWORDS_def greets_def row_matches_def sublist_code Let_def


text \<open>Text outside ASCII: lower-casing and trimming follow the Unicode tables.\<close>

lemma dotted_capital_i_greets:
  "handle_text example_env sid [0x48, 0x130] st = send_welcome example_env sid st"
  by (simp add: handle_text_def string_eval example_env_def)

lemma accented_keyword_matches:
  "row_matches example_env (ascii ''CAF'' @ [0xC9]) [ascii ''caf'' @ [0xE9], ascii ''The coffee is free.'']"
  by (simp add: string_eval example_env_def)

lemma no_break_space_is_stripped:
  "strip ([0xA0] @ ascii '' price '' @ [0x3000]) = ascii ''price''"
  by (simp add: string_eval)

text \<open>Deliveries that do not have the expected shape raise.\<close>

lemma entry_null_raises:
  "handle_message e (JObject [(ascii ''object'', JStr (ascii ''page'')), (ascii ''entry'', JNull)]) st
     = (Inl TypeError, st)"
  by (simp add: handle_message_def ascii_def)

lemma numeric_text_raises:
  "fst (handle_event e
          (JObject [(ascii ''sender'', JObject [(ascii ''id'', JStr (ascii ''42''))]),
                    (ascii ''message'', JObject [(ascii ''text'', JInt 123)])]) st)
     = Some AttributeError"
  by (simp add: handle_event_def handle_msg_def ascii_def)

lemma missing_sender_raises:
  "handle_event e (JObject [(ascii ''message'', JObject [(ascii ''text'', JStr (ascii ''Hi''))])]) st
     = (Some (KeyError (ascii ''sender'')), st)"
  by (simp add: handle_event_def ascii_def)

section \<open>The properties\<close>

subsection \<open>C1: the acknowledgment\<close>




subsection \<open>C2: a failed send\<close>

text \<open>
  Claim C2 says that a failed send, by a response that is not a success or by a network
  fault, is logged and swallowed. For a response whose status is not 200 this is what
  \<open>send_message\<close> does: it prints the failure and returns normally. An exception of the
  post itself is not caught: it leaves \<open>send_message\<close>, and with it the handler.
\<close>

theorem send_failure_outcomes:
  "(http_post e (clock st) (build_payload r t q) = PostRaises \<longrightarrow>
      fst (send_message e r t q st) = Some ConnectionError)
   \<and> (http_post e (clock st) (build_payload r t q) = PostResponse code body \<and> code \<noteq> 200 \<longrightarrow>
      send_message e r t q st =
        (None, print (LogSendFailed code body) (tick (st\<lparr>posts := posts st @ [build_payload r t q]\<rparr>))))"
  by (simp add: send_message_def Let_def)

theorem send_failure_outcomes_witness:
  "fst (send_message faulty_env (JStr (ascii ''42'')) FALLBACK_MESSAGE QUICK_REPLY_BUTTONS st0)
     = Some ConnectionError
   \<and> fst (handle_message faulty_env (page_delivery [tap_event ''42'' ''PRICE'']) st0) = Inl ConnectionError
   \<and> fst (send_message down_env (JStr (ascii ''42'')) FALLBACK_MESSAGE QUICK_REPLY_BUTTONS st0) = None"
proof -
  have f: "http_post faulty_env n r = PostRaises" for n r
    by (simp add: faulty_env_def)
  have d: "http_post down_env n r = PostResponse 500 (ascii ''Internal Server Error'')" for n r
    by (simp add: down_env_def)
  have 1: "fst (send_message faulty_env (JStr (ascii ''42'')) FALLBACK_MESSAGE QUICK_REPLY_BUTTONS st0)
             = Some ConnectionError"
    using send_failure_outcomes[of faulty_env st0 "JStr (ascii ''42'')" FALLBACK_MESSAGE
        QUICK_REPLY_BUTTONS, THEN conjunct1] f
    by simp
  have 2: "fst (handle_message faulty_env (page_delivery [tap_event ''42'' ''PRICE'']) st0)
             = Inl ConnectionError"
    by (simp add: handle_message_def page_delivery_def tap_event_def handle_event_def handle_msg_def
        payload_reply_def PAYLOAD_REPLIES_def send_message_def Let_def f ascii_def split: prod.split)
  have 3: "fst (send_message down_env (JStr (ascii ''42'')) FALLBACK_MESSAGE QUICK_REPLY_BUTTONS st0) = None"
    using send_failure_outcomes[of down_env st0 "JStr (ascii ''42'')" FALLBACK_MESSAGE
        QUICK_REPLY_BUTTONS 500 "ascii ''Internal Server Error''", THEN conjunct2] d
    by simp
  show ?thesis
    using 1 2 3 by simp
qed

subsection \<open>C3: the keyword table\<close>

text \<open>
  Claim C3 says that for a text containing a configured keyword the resolver returns that
  keyword's configured reply, the first matching row winning. The reply returned is the
  reply cell trimmed, not the cell as configured: with the reply cell
  \<open>" We're open Mon-Fri, 9am to 6pm. "\<close> the lookup returns, and the handler sends, the
  text without the blanks at its ends.
\<close>

theorem configured_reply_counterexample:
  "\<not> greets padded_env (ascii ''opening hours'')
   \<and> sublist (lower padded_env (ascii ''hours'')) (lower padded_env (ascii ''opening hours''))
   \<and> drop 1 padded_sheet = [[ascii ''hours'', ascii '' We're open Mon-Fri, 9am to 6pm. '']]
   \<and> fst (find_reply_from_sheet padded_env (ascii ''opening hours'') st0)
       = Some (ascii ''We're open Mon-Fri, 9am to 6pm.'')
   \<and> map (out_text \<circ> message_out)
         (posts (snd (handle_text padded_env (JStr (ascii ''42'')) (ascii ''opening hours'') st0)))
       = [ascii ''We're open Mon-Fri, 9am to 6pm.'']"
proof -
  have g: "\<not> greets padded_env (ascii ''opening hours'')"
    by (simp add: string_eval padded_env_def example_env_def)
  have c: "sublist (lower padded_env (ascii ''hours'')) (lower padded_env (ascii ''opening hours''))"
    by (simp add: string_eval padded_env_def example_env_def)
  have d: "drop 1 padded_sheet = [[ascii ''hours'', ascii '' We're open Mon-Fri, 9am to 6pm. '']]"
    by (simp add: padded_sheet_def)
  have s: "sheet_get_all_values padded_env (clock st0) = SheetValues padded_sheet"
    by (simp add: padded_env_def)
  have f: "find (row_matches padded_env (ascii ''opening hours'')) (drop 1 padded_sheet)
             = Some [ascii ''hours'', ascii '' We're open Mon-Fri, 9am to 6pm. '']"
    by (simp add: string_eval padded_sheet_def padded_env_def example_env_def)
  have b: "strip ([ascii ''hours'', ascii '' We're open Mon-Fri, 9am to 6pm. ''] ! 1)
             = ascii ''We're open Mon-Fri, 9am to 6pm.''"
    by (simp add: string_eval)
  have r: "fst (find_reply_from_sheet padded_env (ascii ''opening hours'') st0)
             = Some (ascii ''We're open Mon-Fri, 9am to 6pm.'')"
    using find_reply_from_sheet_first_match[OF s f] by (simp only: b)
  have n: "ascii ''We're open Mon-Fri, 9am to 6pm.'' \<noteq> []"
    by (simp add: ascii_def)
  have p: "posts (snd (handle_text padded_env (JStr (ascii ''42'')) (ascii ''opening hours'') st0))
             = posts st0 @ [build_payload (JStr (ascii ''42'')) (ascii ''We're open Mon-Fri, 9am to 6pm.'')
                              QUICK_REPLY_BUTTONS]"
    using g r n by (rule handle_text_match)
  have q: "map (out_text \<circ> message_out)
         (posts (snd (handle_text padded_env (JStr (ascii ''42'')) (ascii ''opening hours'') st0)))
       = [ascii ''We're open Mon-Fri, 9am to 6pm.'']"
    unfolding p by (simp add: st0_def build_payload_def)
  show ?thesis
    by (intro conjI g c d r q)
qed

text \<open>
  C3 as the handler implements it: when the sheet is read, the lookup returns the reply
  cell, trimmed, of the first row after the header row that matches the text (a row of at
  least two cells whose keyword cell, trimmed and lower-cased, is not empty and occurs in
  the lower-cased text); and when the text does not greet and that trimmed reply is not
  empty, the resolver sends exactly it, with the standard buttons.
\<close>

theorem first_matching_row_wins:
  assumes "sheet_get_all_values e (clock st) = SheetValues sheet"
    and "find (row_matches e t) (drop 1 sheet) = Some row"
  shows "fst (find_reply_from_sheet e t st) = Some (strip (row ! 1))
         \<and> (\<not> greets e t \<and> strip (row ! 1) \<noteq> [] \<longrightarrow>
              posts (snd (handle_text e sid t st)) =
                posts st @ [build_payload sid (strip (row ! 1)) QUICK_REPLY_BUTTONS])"
proof -
  have r: "fst (find_reply_from_sheet e t st) = Some (strip (row ! 1))"
    using assms by (rule find_reply_from_sheet_first_match)
  then show ?thesis
    by (simp add: handle_text_match)
qed

theorem first_matching_row_wins_witness:
  "find (row_matches example_env (ascii ''What's your PRICE on ice?'')) (drop 1 example_sheet)
     = Some [ascii ''price'', ascii ''Our pricing starts at $99/month'']
   \<and> row_matches example_env (ascii ''What's your PRICE on ice?'') [ascii ''ice'', ascii ''We sell ice.'']
   \<and> fst (find_reply_from_sheet example_env (ascii ''What's your PRICE on ice?'') st0)
       = Some (ascii ''Our pricing starts at $99/month'')
   \<and> posts (snd (handle_text example_env (JStr (ascii ''42'')) (ascii ''What's your PRICE on ice?'') st0))
       = [build_payload (JStr (ascii ''42'')) (ascii ''Our pricing starts at $99/month'') QUICK_REPLY_BUTTONS]"
proof -
  have g: "\<not> greets example_env (ascii ''What's your PRICE on ice?'')"
    by (simp add: string_eval example_env_def)
  have s: "sheet_get_all_values example_env (clock st0) = SheetValues example_sheet"
    by (simp add: example_env_def)
  have f: "find (row_matches example_env (ascii ''What's your PRICE on ice?'')) (drop 1 example_sheet)
             = Some [ascii ''price'', ascii ''Our pricing starts at $99/month'']"
    by (simp add: string_eval example_sheet_def example_env_def)
  have i: "row_matches example_env (ascii ''What's your PRICE on ice?'') [ascii ''ice'', ascii ''We sell ice.'']"
    by (simp add: string_eval example_env_def)
  have b: "strip ([ascii ''price'', ascii ''Our pricing starts at $99/month''] ! 1)
             = ascii ''Our pricing starts at $99/month''"
    by (simp add: string_eval)
  have z: "posts st0 = []"
    by (simp add: st0_def)
  have n: "ascii ''Our pricing starts at $99/month'' \<noteq> []"
    by (simp add: ascii_def)
  show ?thesis
    using first_matching_row_wins[OF s f, of "JStr (ascii ''42'')"] g f i n
    by (simp only: b z) simp
qed

subsection \<open>C4: greetings\<close>

text \<open>
  Claim C4: for every user text that contains a greeting keyword in any letter case (a
  string \<open>v\<close> whose lower-casing is one of the six greeting keywords), anywhere in the
  text, the resolver takes the greeting branch: it does what \<open>send_welcome\<close> does, so it
  posts the personalized welcome; and the keyword table has no influence on the result,
  whatever the sheet holds.
\<close>

theorem greeting_branch:
  assumes "lower e v \<in> set GREETING_KEYWORDS" and "sublist v t"
  shows "handle_text e sid t st = send_welcome e sid st
         \<and> handle_text (e\<lparr>sheet_get_all_values := f\<rparr>) sid t st = handle_text e sid t st
         \<and> posts (snd (handle_text e sid t st)) =
             posts st @ [build_payload sid (welcome_text (fst (get_user_name e sid st))) QUICK_REPLY_BUTTONS]"
proof -
  have "greets e t"
    using assms by (rule greets_variant)
  then have g: "list_ex (\<lambda>keyword. sublist keyword (strip (lower e t))) GREETING_KEYWORDS"
    by (simp only: greeting_test_iff)
  have l: "lower (e\<lparr>sheet_get_all_values := f\<rparr>) t = lower e t"
    by (simp add: lower_def lower_at_def cong: if_cong)
  have w: "handle_text e sid t st = send_welcome e sid st"
    using g by (simp add: handle_text_def)
  have w': "handle_text (e\<lparr>sheet_get_all_values := f\<rparr>) sid t st
              = send_welcome (e\<lparr>sheet_get_all_values := f\<rparr>) sid st"
    using g by (simp add: handle_text_def l)
  have "send_welcome (e\<lparr>sheet_get_all_values := f\<rparr>) sid st = send_welcome e sid st"
    by (simp add: send_welcome_def get_user_name_def send_message_def)
  then show ?thesis
    by (simp add: w w' send_welcome_posts)
qed

theorem greeting_branch_witness:
  "lower example_env (ascii ''HELLO'') \<in> set GREETING_KEYWORDS
   \<and> sublist (ascii ''HELLO'') (ascii ''HELLO there, what is the price?'')
   \<and> posts (snd (handle_text example_env (JStr (ascii ''42'')) (ascii ''HELLO there, what is the price?'') st0)) =
       [build_payload (JStr (ascii ''42'')) (welcome_text (PStr (ascii ''Maria''))) QUICK_REPLY_BUTTONS]"
proof -
  have h1: "lower example_env (ascii ''HELLO'') \<in> set GREETING_KEYWORDS"
    by code_simp
  have h2: "sublist (ascii ''HELLO'') (ascii ''HELLO there, what is the price?'')"
    by code_simp
  have p: "posts (snd (handle_text example_env (JStr (ascii ''42'')) (ascii ''HELLO there, what is the price?'') st0)) =
      posts st0 @ [build_payload (JStr (ascii ''42''))
        (welcome_text (fst (get_user_name example_env (JStr (ascii ''42'')) st0))) QUICK_REPLY_BUTTONS]"
    by (rule greeting_branch[OF h1 h2, THEN conjunct2, THEN conjunct2])
  have n: "fst (get_user_name example_env (JStr (ascii ''42'')) st0) = PStr (ascii ''Maria'')"
    by (simp add: get_user_name_def example_env_def)
  have z: "posts st0 = []"
    by (simp add: st0_def)
  show ?thesis
    by (intro conjI h1 h2) (simp add: p n z)
qed

subsection \<open>C5: the fallback\<close>

text \<open>
  Claim C5: for every user text that does not greet and that no row of the keyword table
  matches, and also when reading the sheet raises, the resolver posts exactly one message,
  the static fallback message with the standard buttons.
\<close>

theorem fallback_when_nothing_matches:
  assumes "\<not> greets e t"
    and "sheet_get_all_values e (clock st) = SheetRaises
         \<or> (\<exists>sheet. sheet_get_all_values e (clock st) = SheetValues sheet
                     \<and> \<not> list_ex (row_matches e t) (drop 1 sheet))"
  shows "posts (snd (handle_text e sid t st)) =
           posts st @ [build_payload sid FALLBACK_MESSAGE QUICK_REPLY_BUTTONS]"
proof -
  have "fst (find_reply_from_sheet e t st) = None"
    using assms(2)
    by (auto simp: find_reply_from_sheet_fst find_None_iff list_ex_iff)
  then show ?thesis
    using assms(1) by (simp add: handle_text_no_match)
qed

theorem fallback_when_nothing_matches_witness:
  "posts (snd (handle_text example_env (JStr (ascii ''42'')) (ascii ''asdkjh random'') st0)) =
     [build_payload (JStr (ascii ''42'')) FALLBACK_MESSAGE QUICK_REPLY_BUTTONS]
   \<and> posts (snd (handle_text down_env (JStr (ascii ''42'')) (ascii ''what is the price?'') st0)) =
     [build_payload (JStr (ascii ''42'')) FALLBACK_MESSAGE QUICK_REPLY_BUTTONS]"
proof -
  have g1: "\<not> greets example_env (ascii ''asdkjh random'')"
    by code_simp
  have s1: "sheet_get_all_values example_env (clock st0) = SheetValues example_sheet"
    by (simp add: example_env_def)
  have m1: "\<not> list_ex (row_matches example_env (ascii ''asdkjh random'')) (drop 1 example_sheet)"
    by (simp add: string_eval example_sheet_def example_env_def)
  have g2: "\<not> greets down_env (ascii ''what is the price?'')"
    by code_simp
  have s2: "sheet_get_all_values down_env (clock st0) = SheetRaises"
    by (simp add: down_env_def)
  show ?thesis
    using fallback_when_nothing_matches[OF g1, of st0 "JStr (ascii ''42'')"] s1 m1
      fallback_when_nothing_matches[OF g2, of st0 "JStr (ascii ''42'')"] s2
    by (simp add: st0_def)
qed

subsection \<open>C6: echoes\<close>

text \<open>
  Claim C6: for every inbound event whose message is flagged as an echo, the handler posts
  nothing to the Send API for that event, and calls no other collaborator either.
\<close>

theorem echo_never_posts:
  assumes "py_item ev (ascii ''message'') = Inr (JObject m)" and "is_echo m"
  shows "posts (snd (handle_event e ev st)) = posts st \<and> clock (snd (handle_event e ev st)) = clock st"
proof -
  from assms(1) obtain kvs where ev: "ev = JObject kvs"
    by (cases ev) simp_all
  have "snd (handle_msg e sid (JObject m) st) = st" for sid
    using assms(2) by (simp add: handle_msg_def is_echo_def split: option.splits)
  then have "snd (handle_event e ev st) = st"
    using assms(1) by (simp add: handle_event_def ev split: sum.split option.splits)
  then show ?thesis
    by simp
qed

theorem echo_never_posts_witness:
  "py_item echo_event (ascii ''message'')
     = Inr (JObject [(ascii ''is_echo'', JBool True), (ascii ''text'', JStr (ascii ''hello''))])
   \<and> posts (snd (handle_event example_env echo_event st0)) = []
   \<and> clock (snd (handle_event example_env echo_event st0)) = 0"
proof -
  have m: "py_item echo_event (ascii ''message'')
     = Inr (JObject [(ascii ''is_echo'', JBool True), (ascii ''text'', JStr (ascii ''hello''))])"
    by (simp add: echo_event_def ascii_def)
  have i: "is_echo [(ascii ''is_echo'', JBool True), (ascii ''text'', JStr (ascii ''hello''))]"
    by (simp add: is_echo_def)
  show ?thesis
    using echo_never_posts[OF m i, of example_env st0] m by (simp add: st0_def)
qed

subsection \<open>C7: quick-reply taps\<close>



subsection \<open>C8: the display name\<close>

text \<open>
  Claim C8 says that the name resolution returns a non-empty string for every sender.
  \<open>get_user_name\<close> has no exceptional result, but it returns the first name of a
  successful lookup as it is, and that may be the empty string:
\<close>

theorem empty_name_counterexample:
  "fst (get_user_name nameless_env (JStr (ascii ''42'')) st0) = PStr []
   \<and> map (out_text \<circ> message_out) (posts (snd (send_welcome nameless_env (JStr (ascii ''42'')) st0))) =
       [welcome_text (PStr [])]"
  by (simp add: get_user_name_def nameless_env_def send_welcome_def send_message_def Let_def
      example_env_def st0_def tick_def print_def build_payload_def)

text \<open>
  C8 as the handler implements it: the name resolution never raises; whenever the lookup
  fails (the request raises, the status is not 200, the body is not a JSON object, or the
  first name is missing) it returns \<open>there\<close>, and the welcome is still posted and contains
  \<open>there\<close>; when the lookup succeeds, the first name it found is returned unchanged.
\<close>

theorem display_name_fallback:
  "(lookup_failed (http_get e (clock st) sid) \<longrightarrow>
      fst (get_user_name e sid st) = PStr (ascii ''there'')
      \<and> posts (snd (send_welcome e sid st)) =
          posts st @ [build_payload sid (welcome_text (PStr (ascii ''there''))) QUICK_REPLY_BUTTONS]
      \<and> sublist (ascii ''there'') (welcome_text (PStr (ascii ''there''))))
   \<and> (http_get e (clock st) sid = GetResponse 200 (Object (Some v)) \<longrightarrow>
      fst (get_user_name e sid st) = v)"
proof (intro conjI impI)
  assume "lookup_failed (http_get e (clock st) sid)"
  then show n: "fst (get_user_name e sid st) = PStr (ascii ''there'')"
    by (cases "http_get e (clock st) sid")
       (auto simp: get_user_name_def split: if_splits json_body.splits option.splits)
  then show "posts (snd (send_welcome e sid st)) =
          posts st @ [build_payload sid (welcome_text (PStr (ascii ''there''))) QUICK_REPLY_BUTTONS]"
    by (simp add: send_welcome_posts)
  show "sublist (ascii ''there'') (welcome_text (PStr (ascii ''there'')))"
    using welcome_text_contains_name[of "PStr (ascii ''there'')"] by simp
next
  assume "http_get e (clock st) sid = GetResponse 200 (Object (Some v))"
  then show "fst (get_user_name e sid st) = v"
    by (simp add: get_user_name_def)
qed

theorem display_name_fallback_witness:
  "fst (get_user_name down_env (JStr (ascii ''42'')) st0) = PStr (ascii ''there'')
   \<and> posts (snd (send_welcome down_env (JStr (ascii ''42'')) st0)) =
       [build_payload (JStr (ascii ''42'')) (welcome_text (PStr (ascii ''there''))) QUICK_REPLY_BUTTONS]
   \<and> fst (get_user_name example_env (JStr (ascii ''42'')) st0) = PStr (ascii ''Maria'')"
proof -
  have l: "lookup_failed (http_get down_env (clock st0) (JStr (ascii ''42'')))"
    by (simp add: down_env_def)
  have m: "http_get example_env (clock st0) (JStr (ascii ''42''))
             = GetResponse 200 (Object (Some (PStr (ascii ''Maria''))))"
    by (simp add: example_env_def)
  have z: "posts st0 = []"
    by (simp add: st0_def)
  show ?thesis
    using display_name_fallback[of down_env st0 "JStr (ascii ''42'')", THEN conjunct1] l
      display_name_fallback[of example_env st0 "JStr (ascii ''42'')" "PStr (ascii ''Maria'')", THEN conjunct2] m
    by (simp add: z)
qed

subsection \<open>C9: one reply per event\<close>



subsection \<open>C10: a matching row with an empty reply\<close>

text \<open>
  Claim C10 says that a text matching a row whose reply cell is empty or whitespace gets the
  fallback message. When an earlier row matches too, that row wins and its reply is sent:
\<close>

theorem shadowed_empty_reply_counterexample:
  "row_matches shadowed_env (ascii ''price'') [ascii ''ice'', []]
   \<and> strip ([ascii ''ice'', []] ! 1) = []
   \<and> \<not> greets shadowed_env (ascii ''price'')
   \<and> posts (snd (handle_text shadowed_env (JStr (ascii ''42'')) (ascii ''price'') st0))
       = [build_payload (JStr (ascii ''42'')) (ascii ''P'') QUICK_REPLY_BUTTONS]
   \<and> ascii ''P'' \<noteq> FALLBACK_MESSAGE"
proof -
  have m: "row_matches shadowed_env (ascii ''price'') [ascii ''ice'', []]"
    by (simp add: string_eval shadowed_env_def example_env_def)
  have e: "strip ([ascii ''ice'', []] ! 1) = []"
    by (simp add: string_eval)
  have g: "\<not> greets shadowed_env (ascii ''price'')"
    by (simp add: string_eval shadowed_env_def example_env_def)
  have s: "sheet_get_all_values shadowed_env (clock st0) = SheetValues shadowed_sheet"
    by (simp add: shadowed_env_def)
  have f: "find (row_matches shadowed_env (ascii ''price'')) (drop 1 shadowed_sheet)
             = Some [ascii ''price'', ascii ''P'']"
    by (simp add: string_eval shadowed_sheet_def shadowed_env_def example_env_def)
  have b: "strip ([ascii ''price'', ascii ''P''] ! 1) = ascii ''P''"
    by (simp add: string_eval)
  have r: "fst (find_reply_from_sheet shadowed_env (ascii ''price'') st0) = Some (ascii ''P'')"
    using find_reply_from_sheet_first_match[OF s f] by (simp only: b)
  have n: "ascii ''P'' \<noteq> []"
    by (simp add: ascii_def)
  have p: "posts (snd (handle_text shadowed_env (JStr (ascii ''42'')) (ascii ''price'') st0))
             = posts st0 @ [build_payload (JStr (ascii ''42'')) (ascii ''P'') QUICK_REPLY_BUTTONS]"
    using g r n by (rule handle_text_match)
  have d: "ascii ''P'' \<noteq> FALLBACK_MESSAGE"
    by (simp add: ascii_def FALLBACK_MESSAGE_def)
  have q: "posts (snd (handle_text shadowed_env (JStr (ascii ''42'')) (ascii ''price'') st0))
       = [build_payload (JStr (ascii ''42'')) (ascii ''P'') QUICK_REPLY_BUTTONS]"
    unfolding p by (simp add: st0_def)
  show ?thesis
    by (intro conjI m e g d q)
qed

text \<open>
  C10 as the handler implements it: for every text that does not greet and whose first
  matching row in the keyword table has a reply cell that is empty or only whitespace, the
  lookup returns the empty string, which is falsy, and the handler posts the static fallback
  message instead of an empty reply.
\<close>

theorem empty_reply_falls_back:
  assumes "\<not> greets e t"
    and "sheet_get_all_values e (clock st) = SheetValues sheet"
    and "find (row_matches e t) (drop 1 sheet) = Some row"
    and "strip (row ! 1) = []"
  shows "fst (find_reply_from_sheet e t st) = Some []
         \<and> posts (snd (handle_text e sid t st)) =
             posts st @ [build_payload sid FALLBACK_MESSAGE QUICK_REPLY_BUTTONS]"
proof -
  have r: "fst (find_reply_from_sheet e t st) = Some []"
    using find_reply_from_sheet_first_match[OF assms(2,3)] assms(4) by simp
  then show ?thesis
    using assms(1) by (simp add: handle_text_no_match)
qed

theorem empty_reply_falls_back_witness:
  "find (row_matches example_env (ascii ''I want a refund'')) (drop 1 example_sheet)
     = Some [ascii ''refund'', [0x20, 0xA0]]
   \<and> fst (find_reply_from_sheet example_env (ascii ''I want a refund'') st0) = Some []
   \<and> posts (snd (handle_text example_env (JStr (ascii ''42'')) (ascii ''I want a refund'') st0)) =
       [build_payload (JStr (ascii ''42'')) FALLBACK_MESSAGE QUICK_REPLY_BUTTONS]"
proof -
  have g: "\<not> greets example_env (ascii ''I want a refund'')"
    by (simp add: string_eval example_env_def)
  have s: "sheet_get_all_values example_env (clock st0) = SheetValues example_sheet"
    by (simp add: example_env_def)
  have f: "find (row_matches example_env (ascii ''I want a refund'')) (drop 1 example_sheet)
             = Some [ascii ''refund'', [0x20, 0xA0]]"
    by (simp add: string_eval example_sheet_def example_env_def)
  have b: "strip ([ascii ''refund'', [0x20, 0xA0]] ! 1) = []"
    by (simp add: string_eval)
  have z: "posts st0 = []"
    by (simp add: st0_def)
  show ?thesis
    using empty_reply_falls_back[OF g s f b, of "JStr (ascii ''42'')"] f
    by (simp add: z)
qed

end
